theory Spec2Isabelle
  imports Complex_Main
begin

section \<open>Values and exceptions\<close>

text \<open>
  JSON-like values: the tasks put on the queue are Python dicts, and the result of
  \<^verbatim>\<open>json.loads\<close> is any JSON value. A dict is an association list read with
  \<open>map_of\<close>. Numbers are Python ints; floats are outside this model.
\<close>

datatype json =
    JNull
  | JBool bool
  | JInt int
  | JStr string
  | JList "json list"
  | JObj "(string \<times> json) list"

type_synonym task = "(string \<times> json) list"

text \<open>The Python exceptions that the modelled code raises.\<close>

datatype error =
    NameError
  | KeyError
  | TypeError
  | AttributeError
  | ValueError
  | InvalidToken
  | JSONDecodeError
  | SecurityError

section \<open>The crypto codec (src/core/crypto.py)\<close>

text \<open>
  \<^verbatim>\<open>MilitaryCrypto\<close> forwards to the Fernet cipher of the \<^verbatim>\<open>cryptography\<close> package
  and to \<^verbatim>\<open>hashlib\<close>, which are not part of the repository: they are parameters. A
  Python \<^verbatim>\<open>str\<close> is a \<open>string\<close> here, and \<^verbatim>\<open>encode()\<close> and \<^verbatim>\<open>decode()\<close> are the
  identity. \<open>fernet_decrypt\<close> is \<open>None\<close> where the library raises.
\<close>

record crypto_lib =
  fernet_encrypt :: "string \<Rightarrow> string"
  fernet_decrypt :: "string \<Rightarrow> string option"
  sha256_hexdigest :: "string \<Rightarrow> string"
  json_dumps :: "json \<Rightarrow> string"

definition encrypt :: "crypto_lib \<Rightarrow> string \<Rightarrow> error + string" where
  "encrypt c data = Inr (fernet_encrypt c data)"

definition decrypt :: "crypto_lib \<Rightarrow> string \<Rightarrow> error + string" where
  "decrypt c encrypted_data =
     (case fernet_decrypt c encrypted_data of
        None \<Rightarrow> Inl InvalidToken
      | Some plain \<Rightarrow> Inr plain)"

definition hash_data :: "crypto_lib \<Rightarrow> string \<Rightarrow> error + string" where
  "hash_data c data = Inr (take 12 (sha256_hexdigest c data))"

text \<open>
  The names bound at the top level of the module: its three imports and the class. A
  name that a method reads and that is neither local nor bound here (nor a builtin)
  raises \<^verbatim>\<open>NameError\<close> when the method runs.
\<close>

definition crypto_globals :: "string list" where
  "crypto_globals = [''Fernet'', ''hashlib'', ''os'', ''MilitaryCrypto'']"

definition load_global :: "string \<Rightarrow> error + unit" where
  "load_global name = (if name \<in> set crypto_globals then Inr () else Inl NameError)"

text \<open>
  \<^verbatim>\<open>secure_comms\<close> evaluates the dict display from left to right; the first thing
  that can fail is the read of the global \<^verbatim>\<open>json\<close>.
\<close>

definition secure_comms :: "crypto_lib \<Rightarrow> string \<Rightarrow> string \<Rightarrow> json \<Rightarrow> error + json" where
  "secure_comms c sender receiver message =
     (case load_global ''json'' of
        Inl e \<Rightarrow> Inl e
      | Inr _ \<Rightarrow>
          (case encrypt c (json_dumps c message) of
             Inl e \<Rightarrow> Inl e
           | Inr payload \<Rightarrow>
               Inr (JObj [(''sender'', JStr sender), (''receiver'', JStr receiver),
                          (''payload'', JStr payload)])))"

section \<open>The Fernet cipher behind the codec\<close>








section \<open>The state of the security sentinel\<close>

text \<open>
  The messages passed to \<^verbatim>\<open>logger\<close> by the sentinel and by the registry, one
  constructor for each.
\<close>

datatype log_event =
    Initialized int
  | UnknownTaskType json
  | DecryptionFailed error
  | Alert string string
  | ProcessingThreatAlert json
  | ThreatLevelChanged int
  | ActivatedCountermeasures "string list"
  | ActivatingLockdownProtocol
  | NetworkIsolationComplete
  | NetworkIsolationFailed
  | SuspendedProcesses "string list"
  | EnhancedMonitoringActivated
  | ProcessRestrictionsEnabled
  | ContentAssetsFrozen
  | EnhancedLoggingActivated
  | CriticalDataBackupInitiated
  | InitiatingFullSystemScan
  | WhitelistUpdated nat
  | Sent string string
  | ShuttingDown
  | DeactivatingCountermeasures "string list"
  | ShutdownComplete
  | RegisteredAgent string

text \<open>
  \<^verbatim>\<open>self.monitoring_intervals\<close> is a dict that always has the four literal keys
  \<^verbatim>\<open>'network'\<close>, \<^verbatim>\<open>'process'\<close>, \<^verbatim>\<open>'performance'\<close>, \<^verbatim>\<open>'integrity'\<close>: a record with
  four fields, so that no lookup can miss.
\<close>

record intervals =
  network :: int
  process :: int
  performance :: int
  integrity :: int

text \<open>
  A job of the \<^verbatim>\<open>schedule\<close> library: \<^verbatim>\<open>schedule.every(n).seconds.do(f)\<close> is
  the pair of \<open>n\<close> and the name of the method \<open>f\<close>.
\<close>

type_synonym job = "int \<times> string"

text \<open>
  The attributes of a \<^verbatim>\<open>SecuritySentinel\<close> that the modelled methods read or write.
  \<open>scheduler\<close> is the job list of the default scheduler of the \<^verbatim>\<open>schedule\<close> module
  and \<open>logged\<close> collects the messages passed to \<^verbatim>\<open>logger\<close>, oldest first.
\<close>

record sentinel =
  running :: bool
  task_queue :: "task list"
  threat_level :: int
  active_countermeasures :: "string list"
  whitelist :: "(string \<times> json list) list"
  monitoring_intervals :: intervals
  scheduler :: "job list"
  logged :: "log_event list"

text \<open>
  What the sentinel takes from outside the repository: the outcome of the
  \<^verbatim>\<open>netsh\<close> commands of \<^verbatim>\<open>_isolate_network\<close> (\<open>True\<close> when both return, \<open>False\<close>
  when one raises \<^verbatim>\<open>CalledProcessError\<close>; the host is taken to have the command, as
  the source's comment says it is specific to Windows), the names of the processes that
  \<^verbatim>\<open>_suspend_non_critical_processes\<close> suspends, the libraries behind the shared
  \<^verbatim>\<open>MilitaryCrypto\<close> and \<^verbatim>\<open>json.loads\<close> (\<open>None\<close> when it raises).
\<close>

record env =
  netsh_ok :: bool
  suspended :: "string list"
  crypto :: crypto_lib
  json_loads :: "string \<Rightarrow> json option"

text \<open>A call returns the new state, or raises with the state as it is at the raise.\<close>

type_synonym outcome = "(error \<times> sentinel) + sentinel"

fun state_of :: "outcome \<Rightarrow> sentinel" where
  "state_of (Inl (e, s)) = s"
| "state_of (Inr s) = s"

section \<open>The threat escalation engine (src/agents/sentinel.py)\<close>

definition logger :: "log_event \<Rightarrow> sentinel \<Rightarrow> sentinel" where
  "logger e s = s\<lparr>logged := logged s @ [e]\<rparr>"

text \<open>
  \<^verbatim>\<open>_send_results\<close> builds the payload, encrypts it and logs; the message is not
  delivered anywhere, so the log entry is its only effect on the sentinel.
\<close>

definition send_results :: "string \<Rightarrow> string \<Rightarrow> sentinel \<Rightarrow> sentinel" where
  "send_results recipient message_type s = logger (Sent message_type recipient) s"

text \<open>
  \<^verbatim>\<open>_init_monitoring\<close> appends one job for each category, at the interval the
  sentinel holds for it.
\<close>

definition init_monitoring :: "sentinel \<Rightarrow> sentinel" where
  "init_monitoring s =
     s\<lparr>scheduler := scheduler s @
        [(network (monitoring_intervals s), ''_monitor_network_activity''),
         (process (monitoring_intervals s), ''_monitor_processes''),
         (performance (monitoring_intervals s), ''_monitor_system_performance''),
         (integrity (monitoring_intervals s), ''_check_system_integrity'')]\<rparr>"

text \<open>Python's \<^verbatim>\<open>int()\<close> of a number truncates towards zero.\<close>

definition py_int :: "rat \<Rightarrow> int" where
  "py_int q = (if 0 \<le> q then \<lfloor>q\<rfloor> else \<lceil>q\<rceil>)"

definition base_intervals :: intervals where
  "base_intervals = \<lparr>network = 5, process = 10, performance = 15, integrity = 30\<rparr>"

text \<open>
  \<^verbatim>\<open>multiplier = max(0.1, 1 - (self.threat_level * 0.05))\<close> and the products
  \<^verbatim>\<open>int(v * multiplier)\<close>, in exact rational arithmetic. The source computes them in
  IEEE doubles. The two agree for the levels from \<open>-61\<close> to \<open>10\<close>, which contain the
  documented scale from 0 to 10, and a level above \<open>10\<close> is never stored. Below \<open>-61\<close>
  the rounding of the doubles can give an interval that is one less (122 where the exact
  value is 123, for the base 30 at level \<open>-62\<close>), and for a level beyond the range of a
  double the source raises \<^verbatim>\<open>OverflowError\<close> at the first product, before it stores
  the intervals or clears the scheduler. These definitions are the source's
  \<^verbatim>\<open>_adjust_monitoring\<close> on the levels from \<open>-61\<close> to \<open>10\<close> only; what is proved of
  intervals and jobs is stated for new levels on the scale.
\<close>

definition multiplier :: "int \<Rightarrow> rat" where
  "multiplier level = max (1 / 10) (1 - of_int level * (5 / 100))"

definition adjusted :: "int \<Rightarrow> int \<Rightarrow> int" where
  "adjusted level v = max 1 (py_int (of_int v * multiplier level))"

definition adjust_monitoring :: "sentinel \<Rightarrow> sentinel" where
  "adjust_monitoring s =
     init_monitoring
       (s\<lparr>monitoring_intervals :=
            \<lparr>network = adjusted (threat_level s) (network base_intervals),
             process = adjusted (threat_level s) (process base_intervals),
             performance = adjusted (threat_level s) (performance base_intervals),
             integrity = adjusted (threat_level s) (integrity base_intervals)\<rparr>,
          scheduler := []\<rparr>)"

text \<open>\<^verbatim>\<open>_update_threat_level\<close>: the new level is \<^verbatim>\<open>min(10, level + increment)\<close>.\<close>

definition update_threat_level :: "int \<Rightarrow> sentinel \<Rightarrow> sentinel" where
  "update_threat_level increment s =
     (let new_level = min 10 (threat_level s + increment) in
      if new_level \<noteq> threat_level s
      then adjust_monitoring (logger (ThreatLevelChanged new_level) (s\<lparr>threat_level := new_level\<rparr>))
      else s)"

subsection \<open>Countermeasures\<close>

definition isolate_network :: "env \<Rightarrow> sentinel \<Rightarrow> sentinel" where
  "isolate_network ev s =
     logger (if netsh_ok ev then NetworkIsolationComplete else NetworkIsolationFailed) s"

definition suspend_non_critical_processes :: "env \<Rightarrow> sentinel \<Rightarrow> sentinel" where
  "suspend_non_critical_processes ev s =
     (if suspended ev \<noteq> [] then logger (SuspendedProcesses (suspended ev)) s else s)"

text \<open>
  \<^verbatim>\<open>_enhance_monitoring\<close> stores fixed intervals and then calls
  \<^verbatim>\<open>_adjust_monitoring\<close>, which replaces them by the ones computed from the level.
\<close>

definition enhance_monitoring :: "sentinel \<Rightarrow> sentinel" where
  "enhance_monitoring s =
     logger EnhancedMonitoringActivated
       (adjust_monitoring
          (s\<lparr>monitoring_intervals :=
               \<lparr>network = 1, process = 2, performance = 5, integrity = 10\<rparr>\<rparr>))"

definition restrict_process_creation :: "sentinel \<Rightarrow> sentinel" where
  "restrict_process_creation s = logger ProcessRestrictionsEnabled s"

text \<open>
  The body of the loop of \<^verbatim>\<open>_activate_countermeasures\<close>, on the pair of the local
  list \<^verbatim>\<open>activated\<close> and the state.
\<close>

definition activate_measure ::
  "env \<Rightarrow> string \<Rightarrow> string list \<times> sentinel \<Rightarrow> string list \<times> sentinel" where
  "activate_measure ev m p =
     (case p of (activated, s) \<Rightarrow>
        if m \<notin> set (active_countermeasures s)
        then
          (let s1 = s\<lparr>active_countermeasures := active_countermeasures s @ [m]\<rparr>
           in (activated @ [m],
               if m = ''isolate_network'' then isolate_network ev s1
               else if m = ''suspend_non_critical'' then suspend_non_critical_processes ev s1
               else if m = ''enhanced_monitoring'' then enhance_monitoring s1
               else if m = ''process_restrictions'' then restrict_process_creation s1
               else s1))
        else (activated, s))"

definition activate_countermeasures :: "env \<Rightarrow> string list \<Rightarrow> sentinel \<Rightarrow> sentinel" where
  "activate_countermeasures ev ms s =
     (case fold (activate_measure ev) ms ([], s) of
        (activated, s1) \<Rightarrow>
          if activated \<noteq> [] then logger (ActivatedCountermeasures activated) s1 else s1)"

definition lockdown_measures :: "string list" where
  "lockdown_measures =
     [''isolate_network'', ''suspend_non_critical'', ''freeze_assets'',
      ''enable_logging'', ''backup_critical'']"

text \<open>The body of the loop of \<^verbatim>\<open>_activate_lockdown\<close>.\<close>

definition lockdown_measure :: "string \<Rightarrow> sentinel \<Rightarrow> sentinel" where
  "lockdown_measure m s =
     (if m \<notin> set (active_countermeasures s)
      then
        (let s1 = s\<lparr>active_countermeasures := active_countermeasures s @ [m]\<rparr>
         in if m = ''freeze_assets'' then logger ContentAssetsFrozen s1
            else if m = ''enable_logging'' then logger EnhancedLoggingActivated s1
            else if m = ''backup_critical'' then logger CriticalDataBackupInitiated s1
            else s1)
      else s)"

definition activate_lockdown :: "sentinel \<Rightarrow> sentinel" where
  "activate_lockdown s =
     (if ''lockdown'' \<in> set (active_countermeasures s) then s
      else send_results ''Commander'' ''lockdown_activated''
             (fold lockdown_measure lockdown_measures (logger ActivatingLockdownProtocol s)))"

subsection \<open>Responses to alerts\<close>

text \<open>
  \<^verbatim>\<open>_handle_suspicious_activity\<close> is what the monitoring callbacks call with the
  severity they computed. The response is chosen from \<^verbatim>\<open>severity\<close>.
\<close>

definition handle_suspicious_activity ::
  "env \<Rightarrow> string \<Rightarrow> string \<Rightarrow> int \<Rightarrow> sentinel \<Rightarrow> sentinel" where
  "handle_suspicious_activity ev category description severity s =
     (let s1 = update_threat_level severity (logger (Alert category description) s);
          s2 = (if severity \<ge> 8 then activate_lockdown s1
                else if severity \<ge> 5
                then activate_countermeasures ev [''enhanced_monitoring'', ''process_restrictions''] s1
                else s1)
      in send_results ''Commander'' ''security_alert'' s2)"

text \<open>
  What \<^verbatim>\<open>self.threat_level + increment\<close> makes of a JSON value: an int, a bool
  counted as 0 or 1, and \<^verbatim>\<open>TypeError\<close> for the rest.
\<close>

fun as_number :: "json \<Rightarrow> int option" where
  "as_number (JInt n) = Some n"
| "as_number (JBool b) = Some (if b then 1 else 0)"
| "as_number _ = None"

text \<open>
  \<^verbatim>\<open>_handle_threat_alert\<close>: \<^verbatim>\<open>task['threat']\<close> and \<^verbatim>\<open>threat['description']\<close>
  raise \<^verbatim>\<open>KeyError\<close> on a missing key, a threat that is not a dict raises
  \<^verbatim>\<open>TypeError\<close> at the subscript, and \<^verbatim>\<open>threat.get('severity', 1)\<close> defaults to 1.
  The response is chosen from the level after the update.
\<close>

definition handle_threat_alert :: "env \<Rightarrow> task \<Rightarrow> sentinel \<Rightarrow> outcome" where
  "handle_threat_alert ev t s =
     (case map_of t ''threat'' of
        None \<Rightarrow> Inl (KeyError, s)
      | Some (JObj threat) \<Rightarrow>
          (case map_of threat ''description'' of
             None \<Rightarrow> Inl (KeyError, s)
           | Some description \<Rightarrow>
               (let s1 = logger (ProcessingThreatAlert description) s
                in case as_number (case map_of threat ''severity'' of None \<Rightarrow> JInt 1 | Some v \<Rightarrow> v) of
                     None \<Rightarrow> Inl (TypeError, s1)
                   | Some severity \<Rightarrow>
                       (let s2 = update_threat_level severity s1
                        in Inr (if threat_level s2 \<ge> 7 then activate_lockdown s2
                                else if threat_level s2 \<ge> 4
                                then activate_countermeasures ev
                                       [''isolate_network'', ''suspend_non_critical''] s2
                                else s2))))
      | Some _ \<Rightarrow> Inl (TypeError, s))"


section \<open>Tasks and the worker of the sentinel\<close>

text \<open>
  \<^verbatim>\<open>_full_system_scan\<close> logs and builds \<^verbatim>\<open>scan_results\<close>; its third entry calls
  \<^verbatim>\<open>_scan_filesystem\<close>, whose loop reads the name \<^verbatim>\<open>glob\<close>, which sentinel.py never
  imports. With probes that return, the call ends in \<^verbatim>\<open>NameError\<close> before the threat
  level is touched.
\<close>

definition full_system_scan :: "sentinel \<Rightarrow> outcome" where
  "full_system_scan s = Inl (NameError, logger InitiatingFullSystemScan s)"

text \<open>
  What \<^verbatim>\<open>list.extend\<close> iterates over: the items of a list, the characters of a
  string, the keys of a dict; the other values are not iterable (\<^verbatim>\<open>TypeError\<close>).
\<close>

fun iter_json :: "json \<Rightarrow> json list option" where
  "iter_json (JList xs) = Some xs"
| "iter_json (JStr cs) = Some (map (\<lambda>c. JStr [c]) cs)"
| "iter_json (JObj kvs) = Some (map (\<lambda>kv. JStr (fst kv)) kvs)"
| "iter_json _ = None"

text \<open>The loop of \<^verbatim>\<open>_update_whitelist\<close> over the items of \<^verbatim>\<open>task['entries']\<close>.\<close>

fun extend_whitelist :: "(string \<times> json) list \<Rightarrow> sentinel \<Rightarrow> outcome" where
  "extend_whitelist [] s = Inr s"
| "extend_whitelist ((category, items) # rest) s =
     (if category \<in> set (map fst (whitelist s))
      then
        (case iter_json items of
           None \<Rightarrow> Inl (TypeError, s)
         | Some xs \<Rightarrow>
             extend_whitelist rest
               (s\<lparr>whitelist :=
                    map (\<lambda>kv. if fst kv = category then (fst kv, snd kv @ xs) else kv)
                      (whitelist s)\<rparr>))
      else extend_whitelist rest s)"

definition update_whitelist :: "task \<Rightarrow> sentinel \<Rightarrow> outcome" where
  "update_whitelist t s =
     (case map_of t ''entries'' of
        None \<Rightarrow> Inl (KeyError, s)
      | Some (JObj entries) \<Rightarrow>
          (case extend_whitelist entries s of
             Inl e \<Rightarrow> Inl e
           | Inr s1 \<Rightarrow> Inr (logger (WhitelistUpdated (length entries)) s1))
      | Some _ \<Rightarrow> Inl (AttributeError, s))"

text \<open>
  The body of the \<^verbatim>\<open>try\<close> of \<^verbatim>\<open>_decrypt_task\<close>: the payload is read
  (\<^verbatim>\<open>KeyError\<close> when the key is missing), decrypted (\<^verbatim>\<open>AttributeError\<close> at
  \<^verbatim>\<open>encode\<close> when it is not a string) and parsed.
\<close>

definition decrypt_payload :: "env \<Rightarrow> task \<Rightarrow> error + json" where
  "decrypt_payload ev encrypted_task =
     (case map_of encrypted_task ''payload'' of
        None \<Rightarrow> Inl KeyError
      | Some (JStr payload) \<Rightarrow>
          (case decrypt (crypto ev) payload of
             Inl e \<Rightarrow> Inl e
           | Inr decrypted \<Rightarrow>
               (case json_loads ev decrypted of
                  None \<Rightarrow> Inl JSONDecodeError
                | Some v \<Rightarrow> Inr v))
      | Some _ \<Rightarrow> Inl AttributeError)"

text \<open>
  \<^verbatim>\<open>_decrypt_task\<close>: \<^verbatim>\<open>except Exception\<close> catches each of these, logs, and
  returns the dict \<^verbatim>\<open>{'error': 'decryption_failed'}\<close> in place of the task.
\<close>

definition decryption_failed :: json where
  "decryption_failed = JObj [(''error'', JStr ''decryption_failed'')]"

definition decrypt_task :: "env \<Rightarrow> task \<Rightarrow> sentinel \<Rightarrow> json \<times> sentinel" where
  "decrypt_task ev encrypted_task s =
     (case decrypt_payload ev encrypted_task of
        Inr v \<Rightarrow> (v, s)
      | Inl e \<Rightarrow> (decryption_failed, logger (DecryptionFailed e) s))"

text \<open>\<^verbatim>\<open>task.get('type')\<close>: \<^verbatim>\<open>None\<close> when the key is missing.\<close>

definition get_type :: "task \<Rightarrow> json" where
  "get_type t = (case map_of t ''type'' of None \<Rightarrow> JNull | Some v \<Rightarrow> v)"

text \<open>
  \<^verbatim>\<open>_process_task\<close>. The task put on the queue is a dict; what \<^verbatim>\<open>json.loads\<close>
  returns in its place need not be one, and then \<^verbatim>\<open>task.get\<close> raises
  \<^verbatim>\<open>AttributeError\<close>.
\<close>

definition process_task :: "env \<Rightarrow> task \<Rightarrow> sentinel \<Rightarrow> outcome" where
  "process_task ev t s =
     (case (if ''encrypted'' \<in> set (map fst t) then decrypt_task ev t s else (JObj t, s)) of
        (JObj d, s1) \<Rightarrow>
          (let task_type = get_type d
           in if task_type = JStr ''security_scan'' then full_system_scan s1
              else if task_type = JStr ''threat_alert'' then handle_threat_alert ev d s1
              else if task_type = JStr ''update_whitelist'' then update_whitelist d s1
              else if task_type = JStr ''lockdown'' then Inr (activate_lockdown s1)
              else Inr (logger (UnknownTaskType task_type) s1))
      | (_, s1) \<Rightarrow> Inl (AttributeError, s1))"

text \<open>
  The loop of \<^verbatim>\<open>run\<close>, for as many iterations as the fuel, while tasks are queued:
  each iteration tests \<^verbatim>\<open>self.running\<close>, takes the oldest task and processes it. An
  exception of \<^verbatim>\<open>_process_task\<close> is not caught and ends the worker. The branch for
  an empty queue (\<^verbatim>\<open>queue.Empty\<close>: run the pending jobs, sleep) depends on the clock
  and the probes; the model stops there.
\<close>

fun run :: "env \<Rightarrow> nat \<Rightarrow> sentinel \<Rightarrow> outcome" where
  "run ev 0 s = Inr s"
| "run ev (Suc n) s =
     (if \<not> running s then Inr s
      else
        (case task_queue s of
           [] \<Rightarrow> Inr s
         | t # q \<Rightarrow>
             (case process_task ev t (s\<lparr>task_queue := q\<rparr>) of
                Inl e \<Rightarrow> Inl e
              | Inr s1 \<Rightarrow> run ev n s1)))"

text \<open>
  \<^verbatim>\<open>receive_message\<close> puts the message on the unbounded queue and reads nothing
  else of the sentinel.
\<close>

definition receive_message :: "task \<Rightarrow> sentinel \<Rightarrow> outcome" where
  "receive_message message s = Inr (s\<lparr>task_queue := task_queue s @ [message]\<rparr>)"

text \<open>
  \<^verbatim>\<open>shutdown\<close>; the \<^verbatim>\<open>join\<close> of the worker thread only waits and is left out.
\<close>

definition shutdown :: "sentinel \<Rightarrow> sentinel" where
  "shutdown s =
     (let s1 = logger ShuttingDown (s\<lparr>running := False\<rparr>);
          s2 = (if active_countermeasures s1 \<noteq> []
                then (logger (DeactivatingCountermeasures (active_countermeasures s1)) s1)
                       \<lparr>active_countermeasures := []\<rparr>
                else s1)
      in logger ShutdownComplete s2)"

definition load_whitelist :: "(string \<times> json list) list" where
  "load_whitelist =
     [(''connections'',
         [JObj [(''ip'', JStr ''127.0.0.1''), (''port'', JStr ''*''),
                (''description'', JStr ''localhost'')],
          JObj [(''ip'', JStr ''api.openai.com''), (''port'', JStr ''443''),
                (''description'', JStr ''OpenAI API'')]]),
      (''processes'',
         [JObj [(''name'', JStr ''python''), (''description'', JStr ''Python interpreter'')],
          JObj [(''name'', JStr ''chrome''), (''description'', JStr ''Web browser'')],
          JObj [(''name'', JStr ''svchost''), (''description'', JStr ''Windows service host'')]])]"

text \<open>
  The state at the end of \<^verbatim>\<open>__init__\<close>, given the jobs that are already on the
  scheduler of the process.
\<close>

definition sentinel_init :: "job list \<Rightarrow> sentinel" where
  "sentinel_init js =
     logger (Initialized 0)
       (init_monitoring
          \<lparr>running = True, task_queue = [], threat_level = 0, active_countermeasures = [],
           whitelist = load_whitelist,
           monitoring_intervals =
             \<lparr>network = 5, process = 10, performance = 15, integrity = 30\<rparr>,
           scheduler = js, logged = []\<rparr>)"

section \<open>The agent registry (src/agents/__init__.py)\<close>

text \<open>
  An agent instance, as far as the registry looks at it: its class and the names for
  which \<^verbatim>\<open>hasattr\<close> is true.
\<close>

record agent =
  agent_class :: string
  attrs :: "string list"

record registry =
  agents :: "string \<rightharpoonup> agent"
  registry_log :: "log_event list"

definition validate_agent_security :: "agent \<Rightarrow> bool" where
  "validate_agent_security a =
     list_all (\<lambda>check. check)
       [''crypto'' \<in> set (attrs a),
        ''secure_comms'' \<in> set (attrs a),
        ''threat_monitor'' \<in> set (attrs a)]"

definition register_agent :: "string \<Rightarrow> agent \<Rightarrow> registry \<Rightarrow> error + registry" where
  "register_agent agent_type inst r =
     (if \<not> validate_agent_security inst then Inl SecurityError
      else Inr (r\<lparr>agents := (agents r)(agent_type \<mapsto> inst),
                  registry_log := registry_log r @ [RegisteredAgent agent_type]\<rparr>))"

definition get_agent :: "string \<Rightarrow> registry \<Rightarrow> error + agent" where
  "get_agent agent_type r =
     (case agents r agent_type of
        None \<Rightarrow> Inl ValueError
      | Some a \<Rightarrow> Inr a)"


section \<open>The interval formula as the specification words it\<close>

text \<open>
  Section 4.6 of the specification gives the interval of a category with base \<open>b\<close> at
  level \<open>l\<close> as \<^verbatim>\<open>max(1, b * max(0.1, 1 - l*0.05))\<close>, a number that need not be whole.
\<close>

definition spec_interval :: "int \<Rightarrow> int \<Rightarrow> rat" where
  "spec_interval b l = max 1 (of_int b * max (1 / 10) (1 - of_int l * (5 / 100)))"

section \<open>An environment for the closed examples\<close>

text \<open>
  A stand-in for the libraries: tokens are the plaintext behind a fixed prefix, the
  only JSON text that parses is the empty object, \<^verbatim>\<open>netsh\<close> succeeds and no process
  is suspended.
\<close>

definition example_crypto :: crypto_lib where
  "example_crypto =
     \<lparr>fernet_encrypt = (\<lambda>plain. ''gAAAAA'' @ plain),
      fernet_decrypt = (\<lambda>token. if take 6 token = ''gAAAAA'' then Some (drop 6 token) else None),
      sha256_hexdigest = (\<lambda>data. data),
      json_dumps = (\<lambda>v. ''{}'')\<rparr>"

definition example_env :: env where
  "example_env =
     \<lparr>netsh_ok = True, suspended = [], crypto = example_crypto,
      json_loads = (\<lambda>text. if text = ''{}'' then Some (JObj []) else None)\<rparr>"




section \<open>Properties\<close>

subsection \<open>Fields that the operations leave alone\<close>

lemma logger_fields:
  "running (logger e s) = running s"
  "task_queue (logger e s) = task_queue s"
  "threat_level (logger e s) = threat_level s"
  "active_countermeasures (logger e s) = active_countermeasures s"
  "whitelist (logger e s) = whitelist s"
  "monitoring_intervals (logger e s) = monitoring_intervals s"
  "scheduler (logger e s) = scheduler s"
  "logged (logger e s) = logged s @ [e]"
  by (simp_all add: logger_def)

lemma send_results_fields:
  "running (send_results r m s) = running s"
  "task_queue (send_results r m s) = task_queue s"
  "threat_level (send_results r m s) = threat_level s"
  "active_countermeasures (send_results r m s) = active_countermeasures s"
  "monitoring_intervals (send_results r m s) = monitoring_intervals s"
  "scheduler (send_results r m s) = scheduler s"
  by (simp_all add: send_results_def logger_fields)

lemma adjust_monitoring_fields:
  "running (adjust_monitoring s) = running s"
  "task_queue (adjust_monitoring s) = task_queue s"
  "threat_level (adjust_monitoring s) = threat_level s"
  "active_countermeasures (adjust_monitoring s) = active_countermeasures s"
  "logged (adjust_monitoring s) = logged s"
  by (simp_all add: adjust_monitoring_def init_monitoring_def)

lemma update_threat_level_fields:
  "running (update_threat_level d s) = running s"
  "task_queue (update_threat_level d s) = task_queue s"
  "active_countermeasures (update_threat_level d s) = active_countermeasures s"
  by (simp_all add: update_threat_level_def Let_def adjust_monitoring_fields logger_fields)

lemma update_threat_level_level:
  "threat_level (update_threat_level d s) = min 10 (threat_level s + d)"
  by (simp add: update_threat_level_def Let_def adjust_monitoring_fields logger_fields)

lemma threat_level_upper_bound:
  "threat_level (fold update_threat_level (deltas @ [delta]) s) \<le> 10"
  by (simp add: update_threat_level_level)

lemma sentinel_init_fields:
  "threat_level (sentinel_init js) = 0"
  "active_countermeasures (sentinel_init js) = []"
  "running (sentinel_init js) = True"
  "task_queue (sentinel_init js) = []"
  by (simp_all add: sentinel_init_def logger_fields init_monitoring_def)

subsection \<open>The threat level\<close>

text \<open>
  C1 (the level stays in \<open>[0, 10]\<close>; \<open>update(-100)\<close> from level 10 gives 0).
  \<^verbatim>\<open>_update_threat_level\<close> bounds the level from above only. From the initial
  level 0 the delta \<open>-1\<close> gives \<open>-1\<close>, called directly or through a
  \<^verbatim>\<open>threat_alert\<close> task of severity \<open>-1\<close>; after \<open>update(12)\<close> the level is 10,
  and \<open>update(-100)\<close> then gives \<open>-90\<close>, where the specification says 0.
\<close>

theorem update_threat_level_below_zero:
  "threat_level (update_threat_level (- 1) (sentinel_init [])) = - 1 \<and>
   threat_level
     (state_of
        (process_task example_env
           [(''type'', JStr ''threat_alert''),
            (''threat'', JObj [(''description'', JStr ''recovered''), (''severity'', JInt (- 1))])]
           (sentinel_init []))) = - 1 \<and>
   threat_level (update_threat_level 12 (sentinel_init [])) = 10 \<and>
   threat_level (update_threat_level (- 100) (update_threat_level 12 (sentinel_init []))) = - 90"
  by (simp add: process_task_def get_type_def handle_threat_alert_def Let_def
      update_threat_level_level logger_fields sentinel_init_fields)

subsection \<open>Lockdown and countermeasures\<close>

lemma lockdown_measure_acm:
  "active_countermeasures (lockdown_measure m s) =
     (if m \<in> set (active_countermeasures s) then active_countermeasures s
      else active_countermeasures s @ [m])"
  by (simp add: lockdown_measure_def Let_def logger_fields)


lemma fold_lockdown_measure_set:
  "set (active_countermeasures (fold lockdown_measure ms s)) = set (active_countermeasures s) \<union> set ms"
  by (induction ms arbitrary: s) (auto simp: lockdown_measure_acm split: if_splits)

lemma fold_lockdown_measure_mono:
  "set (active_countermeasures s) \<subseteq> set (active_countermeasures (fold lockdown_measure ms s))"
  by (simp add: fold_lockdown_measure_set)


lemma fold_lockdown_measure_acm_cong:
  "active_countermeasures s = active_countermeasures s' \<Longrightarrow>
   active_countermeasures (fold lockdown_measure ms s) = active_countermeasures (fold lockdown_measure ms s')"
  by (induction ms arbitrary: s s') (simp_all add: lockdown_measure_acm)

lemma activate_lockdown_acm:
  "active_countermeasures (activate_lockdown s) =
     (if ''lockdown'' \<in> set (active_countermeasures s) then active_countermeasures s
      else active_countermeasures (fold lockdown_measure lockdown_measures s))"
  using fold_lockdown_measure_acm_cong [of "logger ActivatingLockdownProtocol s" s lockdown_measures]
  by (simp add: activate_lockdown_def send_results_fields logger_fields)

lemma activate_lockdown_mono:
  "set (active_countermeasures s) \<subseteq> set (active_countermeasures (activate_lockdown s))"
  by (simp add: activate_lockdown_acm fold_lockdown_measure_mono)

lemma enhance_monitoring_acm:
  "active_countermeasures (enhance_monitoring s) = active_countermeasures s"
  by (simp add: enhance_monitoring_def logger_fields adjust_monitoring_fields)

lemma activate_measure_acm:
  "active_countermeasures (snd (activate_measure ev m (a, s))) =
     (if m \<in> set (active_countermeasures s) then active_countermeasures s
      else active_countermeasures s @ [m])"
  by (simp add: activate_measure_def Let_def isolate_network_def suspend_non_critical_processes_def
      restrict_process_creation_def enhance_monitoring_acm logger_fields)

lemma activate_measure_id:
  "m \<in> set (active_countermeasures s) \<Longrightarrow> activate_measure ev m (a, s) = (a, s)"
  by (simp add: activate_measure_def)

lemma fold_activate_measure_id:
  "set ms \<subseteq> set (active_countermeasures s) \<Longrightarrow> fold (activate_measure ev) ms (a, s) = (a, s)"
  by (induction ms) (simp_all add: activate_measure_id)

lemma fold_activate_measure_set:
  "set (active_countermeasures (snd (fold (activate_measure ev) ms p))) =
     set (active_countermeasures (snd p)) \<union> set ms"
proof (induction ms arbitrary: p)
  case Nil
  show ?case by simp
next
  case (Cons m ms)
  obtain a s where p: "p = (a, s)" by (cases p)
  show ?case
    using activate_measure_acm [of ev m a s]
    by (auto simp: Cons.IH p split: if_splits)
qed

lemma activate_countermeasures_set:
  "set (active_countermeasures (activate_countermeasures ev ms s)) =
     set (active_countermeasures s) \<union> set ms"
proof -
  obtain a s1 where f: "fold (activate_measure ev) ms ([], s) = (a, s1)"
    by (cases "fold (activate_measure ev) ms ([], s)")
  have "set (active_countermeasures s1) = set (active_countermeasures s) \<union> set ms"
    using fold_activate_measure_set [of ev ms "([], s)"] by (simp add: f)
  then show ?thesis
    by (simp add: activate_countermeasures_def f logger_fields)
qed

lemma activate_countermeasures_id:
  "set ms \<subseteq> set (active_countermeasures s) \<Longrightarrow> activate_countermeasures ev ms s = s"
  by (simp add: activate_countermeasures_def fold_activate_measure_id)


lemma lockdown_not_a_measure: "''lockdown'' \<notin> set lockdown_measures"
  by (simp add: lockdown_measures_def)

lemma activate_lockdown_never_records:
  "''lockdown'' \<notin> set (active_countermeasures s) \<Longrightarrow>
   ''lockdown'' \<notin> set (active_countermeasures (activate_lockdown s))"
  by (simp add: activate_lockdown_acm fold_lockdown_measure_set lockdown_not_a_measure)


subsection \<open>The active countermeasures never shrink before shutdown\<close>

lemma activate_countermeasures_mono:
  "set (active_countermeasures s) \<subseteq> set (active_countermeasures (activate_countermeasures ev ms s))"
  by (simp add: activate_countermeasures_set)

lemma handle_suspicious_activity_mono:
  "set (active_countermeasures s) \<subseteq>
   set (active_countermeasures (handle_suspicious_activity ev category description severity s))"
proof -
  let ?s1 = "update_threat_level severity (logger (Alert category description) s)"
  have s1: "active_countermeasures ?s1 = active_countermeasures s"
    by (simp add: update_threat_level_fields logger_fields)
  show ?thesis
    using activate_lockdown_mono [of ?s1]
      activate_countermeasures_mono [of ?s1 ev "[''enhanced_monitoring'', ''process_restrictions'']"]
    by (simp add: handle_suspicious_activity_def Let_def send_results_fields s1)
qed

lemma handle_threat_alert_mono:
  "set (active_countermeasures s) \<subseteq>
   set (active_countermeasures (state_of (handle_threat_alert ev t s)))"
proof -
  have step: "set (active_countermeasures s) \<subseteq>
      set (active_countermeasures
        (if threat_level (update_threat_level severity (logger e s)) \<ge> 7
         then activate_lockdown (update_threat_level severity (logger e s))
         else if threat_level (update_threat_level severity (logger e s)) \<ge> 4
              then activate_countermeasures ev [''isolate_network'', ''suspend_non_critical'']
                     (update_threat_level severity (logger e s))
              else update_threat_level severity (logger e s)))" for severity e
    using activate_lockdown_mono [of "update_threat_level severity (logger e s)"]
      activate_countermeasures_mono [of "update_threat_level severity (logger e s)" ev
        "[''isolate_network'', ''suspend_non_critical'']"]
    by (simp add: update_threat_level_fields logger_fields)
  show ?thesis
    unfolding handle_threat_alert_def Let_def
    using step
    by (simp add: logger_fields split: option.split json.split)
qed

lemma extend_whitelist_acm:
  "active_countermeasures (state_of (extend_whitelist entries s)) = active_countermeasures s"
  by (induction entries s rule: extend_whitelist.induct) (simp_all split: option.split)

lemma update_whitelist_acm:
  "active_countermeasures (state_of (update_whitelist t s)) = active_countermeasures s"
proof -
  have "active_countermeasures
          (state_of (case extend_whitelist entries s of
                       Inl e \<Rightarrow> Inl e
                     | Inr s1 \<Rightarrow> Inr (logger (WhitelistUpdated (length entries)) s1))) =
        active_countermeasures s" for entries
    using extend_whitelist_acm [of entries s]
    by (cases "extend_whitelist entries s") (auto simp: logger_fields)
  then show ?thesis
    by (simp add: update_whitelist_def split: option.split json.split)
qed

lemma decrypt_task_acm:
  "active_countermeasures (snd (decrypt_task ev t s)) = active_countermeasures s"
  by (simp add: decrypt_task_def logger_fields split: sum.split)

lemma process_task_mono:
  "set (active_countermeasures s) \<subseteq>
   set (active_countermeasures (state_of (process_task ev t s)))"
proof -
  obtain v s1 where p: "(if ''encrypted'' \<in> set (map fst t) then decrypt_task ev t s else (JObj t, s)) = (v, s1)"
    by (cases "if ''encrypted'' \<in> set (map fst t) then decrypt_task ev t s else (JObj t, s)")
  have s1: "active_countermeasures s1 = active_countermeasures s"
    using p decrypt_task_acm [of ev t s] by (auto split: if_splits)
  show ?thesis
    unfolding process_task_def p
    using handle_threat_alert_mono [of s1 ev] update_whitelist_acm [of _ s1]
      activate_lockdown_mono [of s1]
    by (cases v) (simp_all add: Let_def s1 full_system_scan_def logger_fields)
qed

lemma run_mono:
  "set (active_countermeasures s) \<subseteq> set (active_countermeasures (state_of (run ev n s)))"
proof (induction n arbitrary: s)
  case 0
  show ?case by simp
next
  case (Suc n)
  show ?case
  proof (cases "running s \<and> task_queue s \<noteq> []")
    case False
    then show ?thesis by (auto split: list.split)
  next
    case True
    then obtain t q where q: "task_queue s = t # q" by (cases "task_queue s") auto
    have m: "set (active_countermeasures s) \<subseteq>
        set (active_countermeasures (state_of (process_task ev t (s\<lparr>task_queue := q\<rparr>))))"
      using process_task_mono [of "s\<lparr>task_queue := q\<rparr>" ev t] by simp
    show ?thesis
    proof (cases "process_task ev t (s\<lparr>task_queue := q\<rparr>)")
      case (Inl e)
      then show ?thesis using True q m by simp
    next
      case (Inr s1)
      then show ?thesis using True q m Suc.IH [of s1] by auto
    qed
  qed
qed

lemma handle_suspicious_activity_never_records:
  "''lockdown'' \<notin> set (active_countermeasures s) \<Longrightarrow>
   ''lockdown'' \<notin> set (active_countermeasures
      (handle_suspicious_activity ev category description severity s))"
proof -
  assume n: "''lockdown'' \<notin> set (active_countermeasures s)"
  let ?s1 = "update_threat_level severity (logger (Alert category description) s)"
  have s1: "active_countermeasures ?s1 = active_countermeasures s"
    by (simp add: update_threat_level_fields logger_fields)
  have n1: "''lockdown'' \<notin> set (active_countermeasures ?s1)"
    using n by (simp add: s1)
  show ?thesis
    using activate_lockdown_never_records [OF n1] n
      activate_countermeasures_set [of ev "[''enhanced_monitoring'', ''process_restrictions'']" ?s1]
    by (simp add: handle_suspicious_activity_def Let_def send_results_fields s1)
qed

lemma process_task_never_records:
  assumes n: "''lockdown'' \<notin> set (active_countermeasures s)"
  shows "''lockdown'' \<notin> set (active_countermeasures (state_of (process_task ev t s)))"
proof -
  have ta: "''lockdown'' \<notin> set (active_countermeasures (state_of (handle_threat_alert ev d s1)))"
    if n1: "''lockdown'' \<notin> set (active_countermeasures s1)" for d s1
  proof -
    have step: "''lockdown'' \<notin> set (active_countermeasures
        (if threat_level (update_threat_level severity (logger e s1)) \<ge> 7
         then activate_lockdown (update_threat_level severity (logger e s1))
         else if threat_level (update_threat_level severity (logger e s1)) \<ge> 4
              then activate_countermeasures ev [''isolate_network'', ''suspend_non_critical'']
                     (update_threat_level severity (logger e s1))
              else update_threat_level severity (logger e s1)))" for severity e
    proof -
      have a: "active_countermeasures (update_threat_level severity (logger e s1)) =
          active_countermeasures s1"
        by (simp add: update_threat_level_fields logger_fields)
      have n2: "''lockdown'' \<notin> set (active_countermeasures (update_threat_level severity (logger e s1)))"
        using n1 by (simp add: a)
      show ?thesis
        using activate_lockdown_never_records [OF n2] n2
          activate_countermeasures_set [of ev "[''isolate_network'', ''suspend_non_critical'']"
            "update_threat_level severity (logger e s1)"]
        by simp
    qed
    show ?thesis
      unfolding handle_threat_alert_def Let_def
      using step n1
      by (simp add: logger_fields split: option.split json.split)
  qed
  obtain v s1 where p: "(if ''encrypted'' \<in> set (map fst t) then decrypt_task ev t s else (JObj t, s)) = (v, s1)"
    by (cases "if ''encrypted'' \<in> set (map fst t) then decrypt_task ev t s else (JObj t, s)")
  have s1: "active_countermeasures s1 = active_countermeasures s"
    using p decrypt_task_acm [of ev t s] by (auto split: if_splits)
  have n1: "''lockdown'' \<notin> set (active_countermeasures s1)"
    using n by (simp add: s1)
  show ?thesis
    unfolding process_task_def p
    using ta [OF n1] update_whitelist_acm [of _ s1] activate_lockdown_never_records [OF n1] n1
    by (cases v) (simp_all add: Let_def full_system_scan_def logger_fields)
qed

lemma shutdown_acm: "active_countermeasures (shutdown s) = []"
  by (simp add: shutdown_def Let_def logger_fields)

text \<open>
  C8 (the set of active countermeasures only grows; only shutdown resets it).
  \<^verbatim>\<open>_update_threat_level\<close> leaves the list as it is, for every delta and in
  particular for \<open>update(-100)\<close> at level 10; every other operation of the sentinel
  (the two alert handlers, the two activations, the dispatch of any task whether it
  returns or raises, any number of iterations of the worker, and
  \<^verbatim>\<open>receive_message\<close>) keeps each measure that was active; \<^verbatim>\<open>shutdown\<close> empties
  the list.
\<close>

theorem countermeasures_only_grow:
  "active_countermeasures (update_threat_level delta s) = active_countermeasures s \<and>
   active_countermeasures (update_threat_level (- 100) (s\<lparr>threat_level := 10\<rparr>)) =
     active_countermeasures s \<and>
   set (active_countermeasures s) \<subseteq>
     set (active_countermeasures (handle_suspicious_activity ev category description delta s)) \<and>
   set (active_countermeasures s) \<subseteq>
     set (active_countermeasures (state_of (handle_threat_alert ev t s))) \<and>
   set (active_countermeasures s) \<subseteq>
     set (active_countermeasures (activate_countermeasures ev ms s)) \<and>
   set (active_countermeasures s) \<subseteq> set (active_countermeasures (activate_lockdown s)) \<and>
   set (active_countermeasures s) \<subseteq>
     set (active_countermeasures (state_of (process_task ev t s))) \<and>
   set (active_countermeasures s) \<subseteq> set (active_countermeasures (state_of (run ev n s))) \<and>
   active_countermeasures (state_of (receive_message t s)) = active_countermeasures s \<and>
   active_countermeasures (shutdown s) = []"
  using handle_suspicious_activity_mono [of s ev category description delta]
    handle_threat_alert_mono [of s ev t] activate_countermeasures_mono [of s ev ms]
    activate_lockdown_mono [of s] process_task_mono [of s ev t] run_mono [of s ev n]
  by (simp add: update_threat_level_fields shutdown_acm receive_message_def)

subsection \<open>The threshold policy\<close>

lemma handle_suspicious_activity_level:
  "threat_level (handle_suspicious_activity ev category description severity s) =
     min 10 (threat_level s + severity)"
proof -
  have l: "threat_level (activate_lockdown s1) = threat_level s1" for s1
  proof -
    have "threat_level (fold lockdown_measure ms s2) = threat_level s2" for ms s2
      by (induction ms arbitrary: s2) (simp_all add: lockdown_measure_def Let_def logger_fields)
    then show ?thesis
      by (simp add: activate_lockdown_def send_results_fields logger_fields)
  qed
  have c: "threat_level (activate_countermeasures ev [''enhanced_monitoring'', ''process_restrictions''] s1)
      = threat_level s1" for s1
    by (simp add: activate_countermeasures_def activate_measure_def Let_def logger_fields
        enhance_monitoring_def restrict_process_creation_def adjust_monitoring_fields)
  show ?thesis
    by (simp add: handle_suspicious_activity_def Let_def send_results_fields l c
        update_threat_level_level logger_fields)
qed

lemma activate_lockdown_level: "threat_level (activate_lockdown s) = threat_level s"
proof -
  have "threat_level (fold lockdown_measure ms s2) = threat_level s2" for ms s2
    by (induction ms arbitrary: s2) (simp_all add: lockdown_measure_def Let_def logger_fields)
  then show ?thesis
    by (simp add: activate_lockdown_def send_results_fields logger_fields)
qed

lemma activate_measure_level:
  "threat_level (snd (activate_measure ev m p)) = threat_level (snd p)"
  by (cases p)
    (simp add: activate_measure_def Let_def logger_fields isolate_network_def
      suspend_non_critical_processes_def enhance_monitoring_def restrict_process_creation_def
      adjust_monitoring_fields)

lemma activate_countermeasures_level:
  "threat_level (activate_countermeasures ev ms s) = threat_level s"
proof -
  have f: "threat_level (snd (fold (activate_measure ev) ms p)) = threat_level (snd p)" for p
    by (induction ms arbitrary: p) (simp_all add: activate_measure_level)
  obtain a s1 where p: "fold (activate_measure ev) ms ([], s) = (a, s1)"
    by (cases "fold (activate_measure ev) ms ([], s)")
  show ?thesis
    using f [of "([], s)"] by (simp add: activate_countermeasures_def p logger_fields)
qed

lemma handle_threat_alert_policy:
  assumes t: "map_of t ''threat'' = Some (JObj threat)"
    and d: "map_of threat ''description'' = Some description"
    and n: "as_number (case map_of threat ''severity'' of None \<Rightarrow> JInt 1 | Some v \<Rightarrow> v) = Some severity"
  shows "\<exists>s'. handle_threat_alert ev t s = Inr s' \<and>
     threat_level s' = min 10 (threat_level s + severity) \<and>
     (7 \<le> threat_level s' \<longrightarrow>
        set (active_countermeasures s') =
          (if ''lockdown'' \<in> set (active_countermeasures s) then set (active_countermeasures s)
           else set (active_countermeasures s) \<union> set lockdown_measures)) \<and>
     (4 \<le> threat_level s' \<and> threat_level s' < 7 \<longrightarrow>
        set (active_countermeasures s') =
          set (active_countermeasures s) \<union> {''isolate_network'', ''suspend_non_critical''}) \<and>
     (threat_level s' < 4 \<longrightarrow> active_countermeasures s' = active_countermeasures s)"
proof -
  define s2 where "s2 = update_threat_level severity (logger (ProcessingThreatAlert description) s)"
  define r where "r = (if threat_level s2 \<ge> 7 then activate_lockdown s2
            else if threat_level s2 \<ge> 4
            then activate_countermeasures ev [''isolate_network'', ''suspend_non_critical''] s2
            else s2)"
  have a: "active_countermeasures s2 = active_countermeasures s"
    by (simp add: s2_def update_threat_level_fields logger_fields)
  have l: "threat_level s2 = min 10 (threat_level s + severity)"
    by (simp add: s2_def update_threat_level_level logger_fields)
  have res: "handle_threat_alert ev t s = Inr r"
    by (simp add: handle_threat_alert_def t d n Let_def r_def s2_def)
  have rl: "threat_level r = threat_level s2"
    by (simp add: r_def activate_lockdown_level activate_countermeasures_level)
  have hi: "7 \<le> threat_level r \<longrightarrow> set (active_countermeasures r) =
          (if ''lockdown'' \<in> set (active_countermeasures s) then set (active_countermeasures s)
           else set (active_countermeasures s) \<union> set lockdown_measures)"
    unfolding rl by (simp add: r_def activate_lockdown_acm fold_lockdown_measure_set a)
  have mid: "4 \<le> threat_level r \<and> threat_level r < 7 \<longrightarrow> set (active_countermeasures r) =
          set (active_countermeasures s) \<union> {''isolate_network'', ''suspend_non_critical''}"
    unfolding rl
    using activate_countermeasures_set [of ev "[''isolate_network'', ''suspend_non_critical'']" s2]
    by (simp add: r_def a)
  have lo: "threat_level r < 4 \<longrightarrow> active_countermeasures r = active_countermeasures s"
    unfolding rl by (simp add: r_def a)
  have "threat_level r = min 10 (threat_level s + severity)"
    using rl l by simp
  with res hi mid lo show ?thesis by blast
qed

text \<open>
  C2 (after every update the policy is applied to the resulting level, with thresholds
  8 and 4). It is not: \<^verbatim>\<open>_handle_suspicious_activity\<close> compares the severity it was
  given. A severity of 4 at level 0 gives level 4 and activates nothing, and a second
  one gives level 8, still with no countermeasure active.
\<close>

theorem threshold_policy_counterexample:
  "threat_level (handle_suspicious_activity example_env ''network'' ''probe'' 4 (sentinel_init [])) = 4 \<and>
   active_countermeasures
     (handle_suspicious_activity example_env ''network'' ''probe'' 4 (sentinel_init [])) = [] \<and>
   threat_level
     (handle_suspicious_activity example_env ''network'' ''probe'' 4
        (handle_suspicious_activity example_env ''network'' ''probe'' 4 (sentinel_init []))) = 8 \<and>
   active_countermeasures
     (handle_suspicious_activity example_env ''network'' ''probe'' 4
        (handle_suspicious_activity example_env ''network'' ''probe'' 4 (sentinel_init []))) = []"
  by (simp add: sentinel_init_fields handle_suspicious_activity_def Let_def send_results_fields
      update_threat_level_fields update_threat_level_level logger_fields)

text \<open>
  C2 as amended. \<^verbatim>\<open>_handle_suspicious_activity\<close> sets the level to
  \<^verbatim>\<open>min(10, level + severity)\<close> and chooses the response from the severity: from 8
  on the lockdown measures are activated (unless \<^verbatim>\<open>'lockdown'\<close> is already active),
  from 5 to 7 the measures \<^verbatim>\<open>enhanced_monitoring\<close> and \<^verbatim>\<open>process_restrictions\<close>,
  and below 5 nothing changes. A severity of 12 on a new sentinel gives level 10 and
  the five lockdown measures, each once.
\<close>

theorem threshold_policy_by_severity:
  "threat_level (handle_suspicious_activity ev category description severity s) =
     min 10 (threat_level s + severity) \<and>
   (8 \<le> severity \<longrightarrow>
      set (active_countermeasures (handle_suspicious_activity ev category description severity s)) =
        (if ''lockdown'' \<in> set (active_countermeasures s) then set (active_countermeasures s)
         else set (active_countermeasures s) \<union> set lockdown_measures)) \<and>
   (5 \<le> severity \<and> severity < 8 \<longrightarrow>
      set (active_countermeasures (handle_suspicious_activity ev category description severity s)) =
        set (active_countermeasures s) \<union> {''enhanced_monitoring'', ''process_restrictions''}) \<and>
   (severity < 5 \<longrightarrow>
      active_countermeasures (handle_suspicious_activity ev category description severity s) =
        active_countermeasures s) \<and>
   threat_level (handle_suspicious_activity ev category description 12 (sentinel_init js)) = 10 \<and>
   active_countermeasures (handle_suspicious_activity ev category description 12 (sentinel_init js)) =
     [''isolate_network'', ''suspend_non_critical'', ''freeze_assets'', ''enable_logging'',
      ''backup_critical'']"
proof -
  let ?s1 = "update_threat_level severity (logger (Alert category description) s)"
  have s1: "active_countermeasures ?s1 = active_countermeasures s"
    by (simp add: update_threat_level_fields logger_fields)
  have hi: "8 \<le> severity \<Longrightarrow>
      set (active_countermeasures (handle_suspicious_activity ev category description severity s)) =
        (if ''lockdown'' \<in> set (active_countermeasures s) then set (active_countermeasures s)
         else set (active_countermeasures s) \<union> set lockdown_measures)"
    by (simp add: handle_suspicious_activity_def Let_def send_results_fields
        activate_lockdown_acm fold_lockdown_measure_set s1)
  have mid: "5 \<le> severity \<and> severity < 8 \<Longrightarrow>
      set (active_countermeasures (handle_suspicious_activity ev category description severity s)) =
        set (active_countermeasures s) \<union> {''enhanced_monitoring'', ''process_restrictions''}"
    using activate_countermeasures_set [of ev "[''enhanced_monitoring'', ''process_restrictions'']" ?s1]
    by (simp add: handle_suspicious_activity_def Let_def send_results_fields s1)
  have lo: "severity < 5 \<Longrightarrow>
      active_countermeasures (handle_suspicious_activity ev category description severity s) =
        active_countermeasures s"
    by (simp add: handle_suspicious_activity_def Let_def send_results_fields s1)
  have a12: "active_countermeasures (handle_suspicious_activity ev category description 12 (sentinel_init js)) =
     [''isolate_network'', ''suspend_non_critical'', ''freeze_assets'', ''enable_logging'',
      ''backup_critical'']"
    by (simp add: handle_suspicious_activity_def Let_def send_results_fields activate_lockdown_acm
        update_threat_level_fields logger_fields sentinel_init_fields lockdown_measures_def
        lockdown_measure_acm)
  show ?thesis
    using hi mid lo a12
    by (simp add: handle_suspicious_activity_level sentinel_init_fields)
qed


theorem threshold_policy_by_severity_witness:
  "(8::int) \<le> 9 \<and>
   set (active_countermeasures
          (handle_suspicious_activity example_env ''network'' ''probe'' 9 (sentinel_init []))) =
     set lockdown_measures \<and>
   (5::int) \<le> 6 \<and> (6::int) < 8 \<and>
   set (active_countermeasures
          (handle_suspicious_activity example_env ''network'' ''probe'' 6 (sentinel_init []))) =
     {''enhanced_monitoring'', ''process_restrictions''} \<and>
   (2::int) < 5 \<and>
   active_countermeasures
     (handle_suspicious_activity example_env ''network'' ''probe'' 2 (sentinel_init [])) = []"
  using threshold_policy_by_severity [of example_env "''network''" "''probe''" 9 "sentinel_init []"]
    threshold_policy_by_severity [of example_env "''network''" "''probe''" 6 "sentinel_init []"]
    threshold_policy_by_severity [of example_env "''network''" "''probe''" 2 "sentinel_init []"]
  by (simp add: sentinel_init_fields)

subsection \<open>Monitoring intervals and the scheduler\<close>

lemma multiplier_int: "multiplier l = of_int (max 2 (20 - l)) / 20"
  unfolding multiplier_def by (simp add: max_def field_simps)

lemma adjusted_int: "0 \<le> b \<Longrightarrow> adjusted l b = max 1 ((b * max 2 (20 - l)) div 20)"
proof -
  assume b: "0 \<le> b"
  have "of_int b * multiplier l = (of_int (b * max 2 (20 - l)) :: rat) / of_int 20"
    by (simp add: multiplier_int)
  moreover have "0 \<le> (of_int (b * max 2 (20 - l)) :: rat) / of_int 20"
    using b by simp
  ultimately show ?thesis
    unfolding adjusted_def py_int_def
    by (simp only: floor_divide_of_int_eq if_True)
qed

lemma py_int_spec_interval:
  assumes b: "0 \<le> b"
  shows "py_int (spec_interval b l) = adjusted l b"
proof -
  define x where "x = of_int b * multiplier l"
  have x0: "0 \<le> x"
    unfolding x_def multiplier_int using b by simp
  have sp: "spec_interval b l = max 1 x"
    by (simp add: spec_interval_def x_def multiplier_def)
  have "\<lfloor>max 1 x\<rfloor> = max 1 \<lfloor>x\<rfloor>"
    by (simp add: max_def floor_mono le_floor_iff)
  moreover have "0 \<le> max 1 x" by simp
  ultimately show ?thesis
    using x0 unfolding sp adjusted_def py_int_def x_def [symmetric] by simp
qed

lemma update_threat_level_changed:
  assumes "min 10 (threat_level s + delta) \<noteq> threat_level s"
  shows "monitoring_intervals (update_threat_level delta s) =
           \<lparr>network = adjusted (min 10 (threat_level s + delta)) 5,
            process = adjusted (min 10 (threat_level s + delta)) 10,
            performance = adjusted (min 10 (threat_level s + delta)) 15,
            integrity = adjusted (min 10 (threat_level s + delta)) 30\<rparr>"
    and "scheduler (update_threat_level delta s) =
           [(adjusted (min 10 (threat_level s + delta)) 5, ''_monitor_network_activity''),
            (adjusted (min 10 (threat_level s + delta)) 10, ''_monitor_processes''),
            (adjusted (min 10 (threat_level s + delta)) 15, ''_monitor_system_performance''),
            (adjusted (min 10 (threat_level s + delta)) 30, ''_check_system_integrity'')]"
  using assms
  by (simp_all add: update_threat_level_def Let_def adjust_monitoring_def init_monitoring_def
      logger_def base_intervals_def)

lemma update_threat_level_unchanged:
  "min 10 (threat_level s + delta) = threat_level s \<Longrightarrow> update_threat_level delta s = s"
  by (simp add: update_threat_level_def Let_def)

text \<open>
  C3 (on a change of level each interval becomes
  \<^verbatim>\<open>max(1, base * max(0.1, 1 - level*0.05))\<close>). The code truncates the product to an
  integer before taking the maximum: at level 1 the network interval is 4, and the
  specification's formula gives 19/4.
\<close>

theorem interval_formula_counterexample:
  "of_int (network (monitoring_intervals (update_threat_level 1 (sentinel_init [])))) \<noteq>
   spec_interval 5 (threat_level (update_threat_level 1 (sentinel_init [])))"
proof -
  have "network (monitoring_intervals (update_threat_level 1 (sentinel_init []))) = 4"
    by (simp add: update_threat_level_changed sentinel_init_fields adjusted_int)
  moreover have "spec_interval 5 (threat_level (update_threat_level 1 (sentinel_init []))) = 19 / 4"
    by (simp add: update_threat_level_level sentinel_init_fields spec_interval_def)
  ultimately show ?thesis by simp
qed

text \<open>
  C3 as amended. When \<^verbatim>\<open>_update_threat_level\<close> changes the level to a value on the
  scale from 0 to 10, the scheduler afterwards holds exactly one job for each of the
  four categories, at the interval stored for it, whatever it held before, and the
  stored interval is the value of the specification's formula truncated to an integer.
  When the level does not change, the whole state, intervals and jobs included, is as
  before.
\<close>

theorem update_reconfigures_monitoring:
  "(min 10 (threat_level s + delta) \<noteq> threat_level s \<and> 0 \<le> threat_level s + delta \<longrightarrow>
      scheduler (update_threat_level delta s) =
        [(network (monitoring_intervals (update_threat_level delta s)), ''_monitor_network_activity''),
         (process (monitoring_intervals (update_threat_level delta s)), ''_monitor_processes''),
         (performance (monitoring_intervals (update_threat_level delta s)),
            ''_monitor_system_performance''),
         (integrity (monitoring_intervals (update_threat_level delta s)),
            ''_check_system_integrity'')] \<and>
      monitoring_intervals (update_threat_level delta s) =
        \<lparr>network = py_int (spec_interval 5 (threat_level (update_threat_level delta s))),
         process = py_int (spec_interval 10 (threat_level (update_threat_level delta s))),
         performance = py_int (spec_interval 15 (threat_level (update_threat_level delta s))),
         integrity = py_int (spec_interval 30 (threat_level (update_threat_level delta s)))\<rparr> \<and>
      0 \<le> threat_level (update_threat_level delta s) \<and>
      threat_level (update_threat_level delta s) \<le> 10) \<and>
   (min 10 (threat_level s + delta) = threat_level s \<longrightarrow> update_threat_level delta s = s)"
  by (simp add: update_threat_level_changed update_threat_level_unchanged update_threat_level_level
      py_int_spec_interval)

theorem update_reconfigures_monitoring_witness:
  "min 10 (threat_level (sentinel_init []) + 1) \<noteq> threat_level (sentinel_init []) \<and>
   0 \<le> threat_level (sentinel_init []) + 1 \<and>
   scheduler (update_threat_level 1 (sentinel_init [])) =
     [(4, ''_monitor_network_activity''), (9, ''_monitor_processes''),
      (14, ''_monitor_system_performance''), (28, ''_check_system_integrity'')] \<and>
   monitoring_intervals (update_threat_level 1 (sentinel_init [])) =
     \<lparr>network = 4, process = 9, performance = 14, integrity = 28\<rparr> \<and>
   min 10 (threat_level (sentinel_init []) + 0) = threat_level (sentinel_init []) \<and>
   update_threat_level 0 (sentinel_init []) = sentinel_init []"
  using update_reconfigures_monitoring [of "sentinel_init []" 1]
    update_reconfigures_monitoring [of "sentinel_init []" 0]
  by (simp add: sentinel_init_fields update_threat_level_level py_int_spec_interval adjusted_int)

subsection \<open>The worker and failed decryption\<close>

lemma decrypt_payload_invalid_token:
  "map_of t ''payload'' = Some (JStr payload) \<Longrightarrow> fernet_decrypt (crypto ev) payload = None \<Longrightarrow>
   decrypt_payload ev t = Inl InvalidToken"
  by (simp add: decrypt_payload_def decrypt_def)





subsection \<open>Receiving after shutdown\<close>

lemma shutdown_running: "\<not> running (shutdown s)"
  by (simp add: shutdown_def Let_def logger_fields)

lemma shutdown_task_queue: "task_queue (shutdown s) = task_queue s"
  by (simp add: shutdown_def Let_def logger_fields)

lemma run_not_running: "\<not> running s \<Longrightarrow> run ev n s = Inr s"
  by (cases n) simp_all

text \<open>
  C6 (\<open>receive\<close> fails once the runtime is stopped). It does not: after
  \<^verbatim>\<open>shutdown\<close> the flag \<^verbatim>\<open>running\<close> is false and \<^verbatim>\<open>receive_message\<close> still
  returns normally, with the task on the queue.
\<close>

theorem receive_after_shutdown_counterexample:
  "\<not> running (shutdown (sentinel_init [])) \<and>
   receive_message [(''type'', JStr ''lockdown'')] (shutdown (sentinel_init [])) =
     Inr ((shutdown (sentinel_init []))\<lparr>task_queue := [[(''type'', JStr ''lockdown'')]]\<rparr>)"
  by (simp add: shutdown_running receive_message_def shutdown_task_queue sentinel_init_fields)

text \<open>
  C6 as amended. \<^verbatim>\<open>receive_message\<close> appends the task to the queue and returns
  normally in every state, also after \<^verbatim>\<open>shutdown\<close>; a task received after
  \<^verbatim>\<open>shutdown\<close> stays on the queue, since the worker loop ends when \<^verbatim>\<open>running\<close> is
  false.
\<close>

theorem receive_message_always_enqueues:
  "receive_message message s = Inr (s\<lparr>task_queue := task_queue s @ [message]\<rparr>) \<and>
   \<not> running (shutdown s) \<and>
   receive_message message (shutdown s) =
     Inr ((shutdown s)\<lparr>task_queue := task_queue s @ [message]\<rparr>) \<and>
   run ev n ((shutdown s)\<lparr>task_queue := task_queue s @ [message]\<rparr>) =
     Inr ((shutdown s)\<lparr>task_queue := task_queue s @ [message]\<rparr>)"
  by (simp add: receive_message_def shutdown_running shutdown_task_queue run_not_running)

subsection \<open>Registration\<close>

lemma validate_agent_security_iff:
  "validate_agent_security a \<longleftrightarrow>
     {''crypto'', ''secure_comms'', ''threat_monitor''} \<subseteq> set (attrs a)"
  by (simp add: validate_agent_security_def)

text \<open>
  C7 (registration checks the three capabilities). \<^verbatim>\<open>register_agent\<close> raises
  \<^verbatim>\<open>SecurityError\<close>, the registry's validation error, for an instance that lacks one
  of the attributes \<^verbatim>\<open>crypto\<close>, \<^verbatim>\<open>secure_comms\<close> and \<^verbatim>\<open>threat_monitor\<close>; for an
  instance with all three it returns, and \<^verbatim>\<open>get_agent\<close> with the same identifier
  then returns that instance.
\<close>

theorem register_agent_validates:
  "(\<not> {''crypto'', ''secure_comms'', ''threat_monitor''} \<subseteq> set (attrs inst) \<longrightarrow>
      register_agent agent_type inst r = Inl SecurityError) \<and>
   ({''crypto'', ''secure_comms'', ''threat_monitor''} \<subseteq> set (attrs inst) \<longrightarrow>
      (\<exists>r'. register_agent agent_type inst r = Inr r' \<and> get_agent agent_type r' = Inr inst))"
  by (simp add: register_agent_def get_agent_def validate_agent_security_iff)

theorem register_agent_validates_witness:
  "\<not> {''crypto'', ''secure_comms'', ''threat_monitor''} \<subseteq>
       set (attrs \<lparr>agent_class = ''SecuritySentinel'', attrs = [''crypto'', ''threat_monitor'']\<rparr>) \<and>
   register_agent ''sentinel''
     \<lparr>agent_class = ''SecuritySentinel'', attrs = [''crypto'', ''threat_monitor'']\<rparr>
     \<lparr>agents = Map.empty, registry_log = []\<rparr> = Inl SecurityError \<and>
   {''crypto'', ''secure_comms'', ''threat_monitor''} \<subseteq>
       set (attrs \<lparr>agent_class = ''Runtime'',
                   attrs = [''threat_monitor'', ''crypto'', ''secure_comms'']\<rparr>) \<and>
   (\<exists>r'. register_agent ''runtime''
            \<lparr>agent_class = ''Runtime'', attrs = [''threat_monitor'', ''crypto'', ''secure_comms'']\<rparr>
            \<lparr>agents = Map.empty, registry_log = []\<rparr> = Inr r' \<and>
         get_agent ''runtime'' r' =
           Inr \<lparr>agent_class = ''Runtime'',
                attrs = [''threat_monitor'', ''crypto'', ''secure_comms'']\<rparr>)"
  using register_agent_validates
      [of "\<lparr>agent_class = ''SecuritySentinel'', attrs = [''crypto'', ''threat_monitor'']\<rparr>"
          "''sentinel''" "\<lparr>agents = Map.empty, registry_log = []\<rparr>"]
    register_agent_validates
      [of "\<lparr>agent_class = ''Runtime'', attrs = [''threat_monitor'', ''crypto'', ''secure_comms'']\<rparr>"
          "''runtime''" "\<lparr>agents = Map.empty, registry_log = []\<rparr>"]
  by simp

subsection \<open>The codec\<close>

lemma decrypt_propagates_failure:
  "fernet_decrypt c token = None \<Longrightarrow> decrypt c token = Inl InvalidToken"
  by (simp add: decrypt_def)

lemma decrypt_returns_plaintext:
  "fernet_decrypt c token = Some plain \<Longrightarrow> decrypt c token = Inr plain"
  by (simp add: decrypt_def)






text \<open>
  C10 (\<^verbatim>\<open>secure_comms\<close> always raises \<^verbatim>\<open>NameError\<close>). For every sender, receiver
  and message the call ends in \<^verbatim>\<open>NameError\<close>, at the read of the global \<^verbatim>\<open>json\<close>
  that crypto.py does not import. \<^verbatim>\<open>encrypt\<close> and \<^verbatim>\<open>hash_data\<close> return what the
  libraries give, and \<^verbatim>\<open>decrypt\<close> never raises \<^verbatim>\<open>NameError\<close>.
\<close>

theorem secure_comms_raises_NameError:
  "secure_comms c sender receiver message = Inl NameError \<and>
   encrypt c data = Inr (fernet_encrypt c data) \<and>
   decrypt c token \<noteq> Inl NameError \<and>
   hash_data c data = Inr (take 12 (sha256_hexdigest c data))"
  by (simp add: secure_comms_def load_global_def crypto_globals_def encrypt_def decrypt_def
      hash_data_def split: option.split)

end
